theory Spec2Isabelle
  imports Main
begin

section \<open>Python values, dicts and the object store\<close>

text \<open>
  The module \<open>wrapspawner.py\<close> defines two classes, \<open>WrapSpawner\<close> and its subclass
  \<open>ProfilesSpawner\<close>. Both keep a reference to a configuration dict (\<open>child_config\<close>)
  that is assigned by reference (\<open>self.child_config = p[4]\<close>) and later mutated in place
  (\<open>self.child_config.update(...)\<close>). Dict objects therefore live in an explicit store and
  the spawner holds addresses into it.
\<close>

datatype pyval = PyNone | PyInt int | PyStr string

type_synonym pydict = "(string \<times> pyval) list"

type_synonym addr = nat

text \<open>\<open>d.get(k, default)\<close> on a dict kept as an association list in insertion order.\<close>

definition dict_get :: "('k \<times> 'v) list \<Rightarrow> 'k \<Rightarrow> 'v \<Rightarrow> 'v" where
  "dict_get d k dflt = (case map_of d k of None \<Rightarrow> dflt | Some v \<Rightarrow> v)"

text \<open>\<open>d[k] = v\<close>: an existing key keeps its position, a new key goes to the end.\<close>

primrec dict_setitem :: "'k \<Rightarrow> 'v \<Rightarrow> ('k \<times> 'v) list \<Rightarrow> ('k \<times> 'v) list" where
  "dict_setitem k v [] = [(k, v)]"
| "dict_setitem k v (p # ps) = (if fst p = k then (k, v) # ps else p # dict_setitem k v ps)"

text \<open>\<open>d.update(other)\<close>: the items of \<open>other\<close> are stored into \<open>d\<close> one by one, in order.\<close>

definition dict_update :: "('k \<times> 'v) list \<Rightarrow> ('k \<times> 'v) list \<Rightarrow> ('k \<times> 'v) list" where
  "dict_update d other = fold (\<lambda>kv. dict_setitem (fst kv) (snd kv)) other d"

text \<open>
  The store: the dict objects (an address is an index into \<open>dicts\<close>) and the number of
  Backend objects created so far, which gives each new instance its identity.
\<close>

record heap =
  dicts :: "pydict list"
  instances :: nat

section \<open>The Backend (child spawner), an external collaborator\<close>

datatype error = IndexError | AttributeError | RuntimeError string | TraitError string

text \<open>
  A Backend class is known here by its name, its trait names and its constructor: given
  the keyword arguments, the constructor either raises or leaves the new instance with an
  initial state of its own. A Backend instance records its identity, the class and
  keyword arguments it was built from, the calls it has received, in order, and its state
  dict (\<open>clear_state\<close> empties it, \<open>load_state\<close> replaces it, \<open>get_state\<close> returns it).
  The methods of a Backend instance do not raise in this model.
\<close>

datatype spawner_class =
  SpawnerClass (cls_name: string) (cls_trait_names: "string list")
    (cls_init: "pydict \<Rightarrow> error + pydict")

datatype backend_call =
    ClearState | LoadState pydict | GetState | RunPreSpawnHook | Start | Stop bool | Poll

record backend =
  b_id :: nat
  b_class :: spawner_class
  b_kwargs :: pydict
  b_state :: pydict
  b_calls :: "backend_call list"
  b_links :: "string list"

text \<open>A future is either already completed with a value, or the one a Backend call returned.\<close>

datatype future = Completed pyval | BackendFuture nat backend_call

datatype progress_stream = BackendProgress nat

text \<open>
  The constructor call \<open>cls(**kwargs)\<close>: the exception of the class's constructor, or a
  new instance with the given identity that has received no call yet.
\<close>

definition new_backend :: "spawner_class \<Rightarrow> nat \<Rightarrow> pydict \<Rightarrow> error + backend" where
  "new_backend cls ident kwargs =
     (case cls_init cls kwargs of
        Inl e \<Rightarrow> Inl e
      | Inr st0 \<Rightarrow>
          Inr \<lparr>b_id = ident, b_class = cls, b_kwargs = kwargs, b_state = st0, b_calls = [],
               b_links = []\<rparr>)"

definition backend_clear_state :: "backend \<Rightarrow> backend" where
  "backend_clear_state b = b\<lparr>b_state := [], b_calls := b_calls b @ [ClearState]\<rparr>"

definition backend_load_state :: "pydict \<Rightarrow> backend \<Rightarrow> backend" where
  "backend_load_state st b = b\<lparr>b_state := st, b_calls := b_calls b @ [LoadState st]\<rparr>"

definition backend_get_state :: "backend \<Rightarrow> pydict \<times> backend" where
  "backend_get_state b = (b_state b, b\<lparr>b_calls := b_calls b @ [GetState]\<rparr>)"

definition backend_call :: "backend_call \<Rightarrow> backend \<Rightarrow> future \<times> backend" where
  "backend_call c b = (BackendFuture (b_id b) c, b\<lparr>b_calls := b_calls b @ [c]\<rparr>)"

definition backend_progress :: "backend \<Rightarrow> progress_stream" where
  "backend_progress b = BackendProgress (b_id b)"

section \<open>WrapSpawner\<close>

text \<open>
  The traits of \<open>WrapSpawner\<close> (lines 53-67) and the two attributes it reads from the base
  \<open>Spawner\<close>: \<open>user_options\<close> and the result of \<open>trait_names()\<close>. The identity arguments
  handed to the child's constructor (user, db, hub, ...) are passed through untouched and
  are not part of the model.
\<close>

record wrapspawner =
  child_class :: spawner_class
  child_config :: addr
  child_state :: pydict
  child_spawner :: "backend option"
  user_options :: "(string \<times> string) list"
  trait_names :: "string list"

text \<open>
  The persisted state mapping. Each key this module reads or writes is a field that is
  \<open>None\<close> when the key is absent; \<open>child_conf\<close> holds the dict object itself.
\<close>

record spawner_state =
  st_child_conf :: "addr option"
  st_child_state :: "pydict option"
  st_profile :: "string option"

text \<open>\<open>_yield_val\<close> (lines 43-46): a Future whose result is already set.\<close>

definition yield_val :: "pyval \<Rightarrow> future" where
  "yield_val x = Completed x"

text \<open>
  Lines 88-92. In Python \<open>-\<close> binds tighter than \<open>&\<close>: the supervisor's trait names that
  are also trait names of the child and not keys of \<open>child_config\<close>.
\<close>

definition common_traits :: "string list \<Rightarrow> string list \<Rightarrow> pydict \<Rightarrow> string list" where
  "common_traits own child cfg =
     filter (\<lambda>t. t \<in> set child \<and> map_of cfg t = None) (remdups own)"

text \<open>
  \<open>WrapSpawner.construct_child\<close> (lines 69-96). The result is the exception that
  escaped, or the value returned. When the constructor call of lines 71-80 raises,
  nothing has been assigned yet: \<open>child_spawner\<close> stays \<open>None\<close> and no instance exists.
\<close>

definition W_construct_child ::
  "'a wrapspawner_scheme \<times> heap \<Rightarrow> (error + backend option) \<times> 'a wrapspawner_scheme \<times> heap" where
  "W_construct_child sh = (case sh of (s, h) \<Rightarrow>
     (case child_spawner s of
        Some b \<Rightarrow> (Inr (Some b), s, h)
      | None \<Rightarrow>
          let cfg = dicts h ! child_config s
          in (case new_backend (child_class s) (instances h) cfg of
                Inl e \<Rightarrow> (Inl e, s, h)
              | Inr b0 \<Rightarrow>
                  let b1 = backend_clear_state b0;
                      b2 = (if child_state s \<noteq> [] then backend_load_state (child_state s) b1
                            else b1);
                      b3 = b2\<lparr>b_links := common_traits (trait_names s)
                                            (cls_trait_names (child_class s)) cfg\<rparr>
                  in (Inr (Some b3), s\<lparr>child_spawner := Some b3\<rparr>,
                      h\<lparr>instances := Suc (instances h)\<rparr>))))"

text \<open>\<open>WrapSpawner.load_child_class\<close> (lines 98-100): \<open>pass\<close>.\<close>

definition W_load_child_class :: "spawner_state \<Rightarrow> 'a wrapspawner_scheme \<Rightarrow> 'a wrapspawner_scheme" where
  "W_load_child_class state s = s"

text \<open>
  \<open>WrapSpawner.load_state\<close> (lines 102-107). The calls \<open>self.load_child_class\<close> and
  \<open>self.construct_child\<close> dispatch on the object's class, so the body takes them as
  parameters. The base \<open>Spawner.load_state\<close> touches none of the fields modelled here.
  The method returns nothing: the first component of the result is the exception that
  escaped from \<open>construct_child\<close>, if any, and the assignments made before it stay.
\<close>

definition load_state_body ::
  "(spawner_state \<Rightarrow> 'a wrapspawner_scheme \<Rightarrow> 'a wrapspawner_scheme) \<Rightarrow>
   ('a wrapspawner_scheme \<times> heap \<Rightarrow> (error + backend option) \<times> 'a wrapspawner_scheme \<times> heap) \<Rightarrow>
   spawner_state \<Rightarrow> 'a wrapspawner_scheme \<times> heap \<Rightarrow>
   error option \<times> 'a wrapspawner_scheme \<times> heap" where
  "load_state_body load_child_class construct_child state sh = (case sh of (s, h) \<Rightarrow>
     let s1 = load_child_class state s;
         other = (case st_child_conf state of None \<Rightarrow> [] | Some c \<Rightarrow> dicts h ! c);
         h1 = h\<lparr>dicts := (dicts h)[child_config s1 := dict_update (dicts h ! child_config s1) other]\<rparr>;
         s2 = s1\<lparr>child_state := (case st_child_state state of None \<Rightarrow> [] | Some d \<Rightarrow> d)\<rparr>
     in (case construct_child (s2, h1) of
           (Inl e, s3, h3) \<Rightarrow> (Some e, s3, h3)
         | (Inr r, s3, h3) \<Rightarrow> (None, s3, h3)))"

definition W_load_state ::
  "spawner_state \<Rightarrow> 'a wrapspawner_scheme \<times> heap \<Rightarrow>
   error option \<times> 'a wrapspawner_scheme \<times> heap" where
  "W_load_state = load_state_body W_load_child_class W_construct_child"

text \<open>
  \<open>WrapSpawner.get_state\<close> (lines 109-114). The base \<open>Spawner.get_state\<close> contributes none
  of the keys modelled here.
\<close>

definition W_get_state :: "'a wrapspawner_scheme \<Rightarrow> spawner_state \<times> 'a wrapspawner_scheme" where
  "W_get_state s =
     (let state = \<lparr>st_child_conf = Some (child_config s), st_child_state = None, st_profile = None\<rparr>
      in case child_spawner s of
           None \<Rightarrow> (state, s)
         | Some b \<Rightarrow> (case backend_get_state b of (d, b') \<Rightarrow>
             (state\<lparr>st_child_state := Some d\<rparr>, s\<lparr>child_state := d, child_spawner := Some b'\<rparr>)))"

text \<open>
  \<open>WrapSpawner.clear_state\<close> (lines 116-122); each \<open>{}\<close> is a new dict object. The child,
  if any, is told to clear its state and is then released, so the call leaves no trace
  in the supervisor.
\<close>

definition W_clear_state :: "'a wrapspawner_scheme \<times> heap \<Rightarrow> 'a wrapspawner_scheme \<times> heap" where
  "W_clear_state sh = (case sh of (s, h) \<Rightarrow>
     (s\<lparr>child_state := [], child_config := length (dicts h), child_spawner := None\<rparr>,
      h\<lparr>dicts := dicts h @ [[]]\<rparr>))"

text \<open>
  \<open>start\<close>, \<open>stop\<close>, \<open>poll\<close> and \<open>progress\<close> (lines 127-151). \<open>start\<close> calls
  \<open>self.construct_child\<close>, which dispatches on the object's class. Calling a method on
  \<open>None\<close> raises \<open>AttributeError\<close>.
\<close>

definition start_body ::
  "('a wrapspawner_scheme \<times> heap \<Rightarrow> (error + backend option) \<times> 'a wrapspawner_scheme \<times> heap) \<Rightarrow>
   'a wrapspawner_scheme \<times> heap \<Rightarrow> (error + future) \<times> 'a wrapspawner_scheme \<times> heap" where
  "start_body construct_child sh = (case sh of (s, h) \<Rightarrow>
     (case (if child_spawner s = None then construct_child (s, h) else (Inr None, s, h)) of
        (Inl e, s1, h1) \<Rightarrow> (Inl e, s1, h1)
      | (Inr r, s1, h1) \<Rightarrow>
          (case child_spawner s1 of
             None \<Rightarrow> (Inl AttributeError, s1, h1)
           | Some b \<Rightarrow>
               (case backend_call RunPreSpawnHook b of (u, b1) \<Rightarrow>
                 (case backend_call Start b1 of (f, b2) \<Rightarrow>
                    (Inr f, s1\<lparr>child_spawner := Some b2\<rparr>, h1))))))"

definition W_start ::
  "'a wrapspawner_scheme \<times> heap \<Rightarrow> (error + future) \<times> 'a wrapspawner_scheme \<times> heap" where
  "W_start = start_body W_construct_child"

definition stop :: "bool \<Rightarrow> 'a wrapspawner_scheme \<Rightarrow> future \<times> 'a wrapspawner_scheme" where
  "stop now s =
     (case child_spawner s of
        Some b \<Rightarrow> (case backend_call (Stop now) b of (f, b') \<Rightarrow> (f, s\<lparr>child_spawner := Some b'\<rparr>))
      | None \<Rightarrow> (yield_val PyNone, s))"

definition poll :: "'a wrapspawner_scheme \<Rightarrow> future \<times> 'a wrapspawner_scheme" where
  "poll s =
     (case child_spawner s of
        Some b \<Rightarrow> (case backend_call Poll b of (f, b') \<Rightarrow> (f, s\<lparr>child_spawner := Some b'\<rparr>))
      | None \<Rightarrow> (yield_val (PyInt 1), s))"

definition progress :: "'a wrapspawner_scheme \<Rightarrow> error + progress_stream" where
  "progress s =
     (case child_spawner s of
        Some b \<Rightarrow> Inr (backend_progress b)
      | None \<Rightarrow> Inl (RuntimeError ''No child spawner yet exists - can not get progress yet''))"

section \<open>ProfilesSpawner\<close>

text \<open>
  A catalog entry is the 5-tuple of the \<open>profiles\<close> trait (lines 162-173): display name,
  unique key, description, Spawner class, and the dict object of spawner config options.
\<close>

record profile =
  p_display :: string
  p_key :: string
  p_description :: string
  p_type :: spawner_class
  p_config :: addr

record profilesspawner = wrapspawner +
  profiles :: "profile list"
  child_profile :: string

text \<open>
  \<open>options_from_form\<close> (lines 211-213). The default argument \<open>[self.profiles[0][1]]\<close> is
  evaluated before \<open>get\<close> is called; indexing an empty list raises \<open>IndexError\<close>.
\<close>

definition options_from_form ::
  "profilesspawner \<Rightarrow> (string \<times> string list) list \<Rightarrow> error + (string \<times> string) list" where
  "options_from_form s formdata =
     (case profiles s of
        [] \<Rightarrow> Inl IndexError
      | p # _ \<Rightarrow>
          (case dict_get formdata ''profile'' [p_key p] of
             [] \<Rightarrow> Inl IndexError
           | v # _ \<Rightarrow> Inr [(''profile'', v)]))"

text \<open>\<open>select_profile\<close> (lines 217-223): the \<open>for\<close> loop with its \<open>break\<close>.\<close>

fun select_profile_loop :: "profile list \<Rightarrow> string \<Rightarrow> profilesspawner \<Rightarrow> profilesspawner" where
  "select_profile_loop [] profile s = s"
| "select_profile_loop (p # ps) profile s =
     (if p_key p = profile
      then s\<lparr>child_class := p_type p, child_config := p_config p\<rparr>
      else select_profile_loop ps profile s)"

definition select_profile :: "string \<Rightarrow> profilesspawner \<Rightarrow> profilesspawner" where
  "select_profile profile s = select_profile_loop (profiles s) profile s"

text \<open>
  \<open>ProfilesSpawner.construct_child\<close> (lines 225-228). The body has no \<open>return\<close>, so a
  call that raises nothing evaluates to \<open>None\<close>.
\<close>

definition P_construct_child ::
  "profilesspawner \<times> heap \<Rightarrow> (error + backend option) \<times> profilesspawner \<times> heap" where
  "P_construct_child sh = (case sh of (s, h) \<Rightarrow>
     let s1 = s\<lparr>child_profile := dict_get (user_options s) ''profile'' ''''\<rparr>;
         s2 = select_profile (child_profile s1) s1
     in (case W_construct_child (s2, h) of
           (Inl e, s3, h3) \<Rightarrow> (Inl e, s3, h3)
         | (Inr r, s3, h3) \<Rightarrow> (Inr None, s3, h3)))"

text \<open>\<open>ProfilesSpawner.load_child_class\<close> (lines 230-235).\<close>

definition P_load_child_class :: "spawner_state \<Rightarrow> profilesspawner \<Rightarrow> profilesspawner" where
  "P_load_child_class state s =
     (let s1 = s\<lparr>child_profile := (case st_profile state of Some k \<Rightarrow> k | None \<Rightarrow> '''')\<rparr>
      in select_profile (child_profile s1) s1)"

text \<open>The inherited \<open>load_state\<close> and \<open>start\<close>, with the overridden methods.\<close>

definition P_load_state ::
  "spawner_state \<Rightarrow> profilesspawner \<times> heap \<Rightarrow> error option \<times> profilesspawner \<times> heap" where
  "P_load_state = load_state_body P_load_child_class P_construct_child"

definition P_start ::
  "profilesspawner \<times> heap \<Rightarrow> (error + future) \<times> profilesspawner \<times> heap" where
  "P_start = start_body P_construct_child"

text \<open>\<open>ProfilesSpawner.get_state\<close> (lines 237-240) and \<open>clear_state\<close> (lines 242-244).\<close>

definition P_get_state :: "profilesspawner \<Rightarrow> spawner_state \<times> profilesspawner" where
  "P_get_state s = (case W_get_state s of (state, s') \<Rightarrow>
     (state\<lparr>st_profile := Some (child_profile s')\<rparr>, s'))"

definition P_clear_state :: "profilesspawner \<times> heap \<Rightarrow> profilesspawner \<times> heap" where
  "P_clear_state sh = (case W_clear_state sh of (s', h') \<Rightarrow> (s'\<lparr>child_profile := ''''\<rparr>, h'))"

section \<open>The configuration the source ships with\<close>

text \<open>
  The defaults of the traits (lines 53-67 and 162-175): the class \<open>LocalProcessSpawner\<close>,
  the one-entry default catalog, and a store holding the default \<open>child_config\<close> dict
  (address 0) and the default profile's config dict (address 1). Of the class, a sample
  of what the base \<open>Spawner\<close> declares is kept: four trait names, and a constructor that
  raises \<open>TraitError\<close> when \<open>start_timeout\<close> or \<open>http_timeout\<close> is given a value that is
  not an integer, and otherwise leaves the instance with the state it finds in the
  supervisor's storage.
\<close>

definition int_or_absent :: "pydict \<Rightarrow> string \<Rightarrow> bool" where
  "int_or_absent kwargs k =
     (case map_of kwargs k of None \<Rightarrow> True | Some (PyInt i) \<Rightarrow> True | Some v \<Rightarrow> False)"

definition local_process_init :: "pydict \<Rightarrow> error + pydict" where
  "local_process_init kwargs =
     (if \<not> int_or_absent kwargs ''start_timeout'' then Inl (TraitError ''start_timeout'')
      else if \<not> int_or_absent kwargs ''http_timeout'' then Inl (TraitError ''http_timeout'')
      else Inr [(''child_conf'', PyNone)])"

definition LocalProcessSpawner :: spawner_class where
  "LocalProcessSpawner =
     SpawnerClass ''LocalProcessSpawner''
       [''start_timeout'', ''http_timeout'', ''cmd'', ''user_options''] local_process_init"

definition default_profile :: profile where
  "default_profile =
     \<lparr>p_display = ''Local Notebook Server'', p_key = ''local'',
      p_description = ''local test notebook'', p_type = LocalProcessSpawner, p_config = 1\<rparr>"

definition default_heap :: heap where
  "default_heap =
     \<lparr>dicts = [[], [(''start_timeout'', PyInt 15), (''http_timeout'', PyInt 10)]],
      instances = 0\<rparr>"

definition default_spawner :: profilesspawner where
  "default_spawner =
     \<lparr>child_class = LocalProcessSpawner, child_config = 0, child_state = [],
      child_spawner = None, user_options = [],
      trait_names = [''child_class'', ''child_config'', ''child_state'', ''child_spawner'',
                     ''cmd'', ''user_options'', ''start_timeout'', ''profiles'', ''child_profile''],
      profiles = [default_profile], child_profile = ''''\<rparr>"

text \<open>A supervisor whose user picked the profile \<open>local\<close> in the options form.\<close>

definition local_spawner :: profilesspawner where
  "local_spawner = default_spawner\<lparr>user_options := [(''profile'', ''local'')]\<rparr>"

text \<open>A Backend instance as \<open>construct_child\<close> leaves it on the default configuration.\<close>

definition sample_backend :: backend where
  "sample_backend =
     \<lparr>b_id = 0, b_class = LocalProcessSpawner, b_kwargs = [], b_state = [],
      b_calls = [ClearState], b_links = [''cmd'', ''user_options'', ''start_timeout'']\<rparr>"

text \<open>
  A state mapping as the database hands it back after a restart: the profile key
  \<open>local\<close>, and a \<open>child_conf\<close> dict saved while the profile's \<open>start_timeout\<close> was 60.
  Read back from the database, that dict is an object of its own (address 2).
\<close>


definition restored_heap :: heap where
  "restored_heap = default_heap\<lparr>dicts := dicts default_heap @ [[(''start_timeout'', PyInt 60)]]\<rparr>"

definition restored_state :: spawner_state where
  "restored_state =
     \<lparr>st_child_conf = Some 2, st_child_state = Some [(''pid'', PyInt 7)],
      st_profile = Some ''local''\<rparr>"

section \<open>Facts about dicts and the catalog search\<close>

lemma dict_setitem_same: "map_of d k = Some v \<Longrightarrow> dict_setitem k v d = d"
  by (induction d) auto

lemma fold_setitem_same:
  "distinct (map fst xs) \<Longrightarrow> \<forall>kv\<in>set xs. map_of d (fst kv) = Some (snd kv) \<Longrightarrow>
   fold (\<lambda>kv. dict_setitem (fst kv) (snd kv)) xs d = d"
  by (induction xs arbitrary: d) (auto simp: dict_setitem_same)

lemma dict_update_self: "distinct (map fst d) \<Longrightarrow> dict_update d d = d"
  unfolding dict_update_def by (rule fold_setitem_same) auto

lemma select_profile_loop_find:
  "select_profile_loop ps profile s =
     (case find (\<lambda>p. p_key p = profile) ps of
        None \<Rightarrow> s
      | Some p \<Rightarrow> s\<lparr>child_class := p_type p, child_config := p_config p\<rparr>)"
  by (induction ps) auto

lemma find_key_miss: "profile \<notin> p_key ` set ps \<Longrightarrow> find (\<lambda>p. p_key p = profile) ps = None"
  by (induction ps) auto

lemma find_key_hit:
  "distinct (map p_key ps) \<Longrightarrow> P \<in> set ps \<Longrightarrow> find (\<lambda>p. p_key p = p_key P) ps = Some P"
  by (induction ps) (auto simp: image_iff)

section \<open>Selecting a profile\<close>

text \<open>
  Claim C3. For every profile \<open>P\<close> of the catalog, under the catalog invariant that keys
  are unique, \<open>select_profile(P.key)\<close> sets \<open>child_class\<close> to the class of \<open>P\<close> and
  \<open>child_config\<close> to the config dict of \<open>P\<close> (the very dict object of the entry).
\<close>

theorem select_profile_sets_backend:
  assumes "P \<in> set (profiles s)" and "distinct (map p_key (profiles s))"
  shows "child_class (select_profile (p_key P) s) = p_type P \<and>
         child_config (select_profile (p_key P) s) = p_config P"
  using assms by (simp add: select_profile_def select_profile_loop_find find_key_hit)

theorem select_profile_sets_backend_witness:
  "default_profile \<in> set (profiles default_spawner) \<and>
   distinct (map p_key (profiles default_spawner)) \<and>
   child_class (select_profile (p_key default_profile) default_spawner) = p_type default_profile \<and>
   child_config (select_profile (p_key default_profile) default_spawner) = p_config default_profile"
  using select_profile_sets_backend [of default_profile default_spawner]
  by (simp add: default_spawner_def)

text \<open>
  Claim C4. For an identifier that is the key of no catalog entry, \<open>select_profile\<close> is a
  no-op: the whole supervisor is the same after the call as before. The function has no
  failing branch, so no error is raised.
\<close>

theorem select_profile_unknown_noop:
  "profile \<notin> p_key ` set (profiles s) \<Longrightarrow> select_profile profile s = s"
  by (simp add: select_profile_def select_profile_loop_find find_key_miss)

theorem select_profile_unknown_noop_witness:
  "''docker'' \<notin> p_key ` set (profiles default_spawner) \<and>
   select_profile ''docker'' default_spawner = default_spawner"
  using select_profile_unknown_noop [of "''docker''" default_spawner]
  by (simp add: default_spawner_def default_profile_def)

section \<open>Constructing the Backend\<close>

lemma W_construct_child_idem:
  assumes "W_construct_child (s, h) = (Inr r, s1, h1)"
  shows "W_construct_child (s1, h1) = (Inr r, s1, h1) \<and> r = child_spawner s1 \<and> r \<noteq> None"
proof (cases "child_spawner s")
  case None
  with assms show ?thesis
    by (auto simp: W_construct_child_def Let_def split: sum.splits)
next
  case (Some b)
  with assms have "r = Some b" and "s1 = s" and "h1 = h"
    by (simp_all add: W_construct_child_def)
  with Some show ?thesis
    by (simp add: W_construct_child_def)
qed

lemma W_construct_child_frame:
  assumes "W_construct_child (s, h) = (r, s1, h1)"
  shows "s1 = s\<lparr>child_spawner := child_spawner s1\<rparr> \<and> dicts h1 = dicts h"
proof (cases "child_spawner s")
  case None
  with assms show ?thesis
    by (auto simp: W_construct_child_def Let_def split: sum.splits)
next
  case (Some b)
  with assms have "s1 = s" and "h1 = h"
    by (simp_all add: W_construct_child_def)
  then show ?thesis
    by simp
qed

lemma W_construct_child_raises:
  assumes "W_construct_child (s, h) = (Inl e, s1, h1)"
  shows "s1 = s \<and> h1 = h \<and> child_spawner s = None \<and>
         cls_init (child_class s) (dicts h ! child_config s) = Inl e"
  using assms
  by (auto simp: W_construct_child_def new_backend_def Let_def split: option.splits sum.splits)

lemma select_profile_idem:
  "select_profile profile (select_profile profile s) = select_profile profile s"
  by (simp add: select_profile_def select_profile_loop_find split: option.splits)

lemma select_profile_frame:
  "profiles (select_profile profile s) = profiles s \<and>
   child_profile (select_profile profile s) = child_profile s \<and>
   user_options (select_profile profile s) = user_options s \<and>
   child_spawner (select_profile profile s) = child_spawner s \<and>
   child_state (select_profile profile s) = child_state s"
  by (simp add: select_profile_def select_profile_loop_find split: option.splits)

lemma P_construct_child_again:
  assumes "P_construct_child (s, h) = (Inr r, s1, h1)"
  shows "P_construct_child (s1, h1) = (Inr None, s1, h1) \<and> r = None \<and> child_spawner s1 \<noteq> None"
proof -
  let ?k = "dict_get (user_options s) ''profile'' ''''"
  let ?s2 = "select_profile ?k (s\<lparr>child_profile := ?k\<rparr>)"
  obtain r' where w: "W_construct_child (?s2, h) = (Inr r', s1, h1)" and r: "r = None"
    using assms by (auto simp: P_construct_child_def Let_def split: prod.splits sum.splits)
  have idem: "W_construct_child (s1, h1) = (Inr r', s1, h1)" and "r' = child_spawner s1" "r' \<noteq> None"
    using W_construct_child_idem [OF w] by auto
  have s1: "s1 = ?s2\<lparr>child_spawner := child_spawner s1\<rparr>"
    using W_construct_child_frame [OF w] by simp
  have fr: "user_options s1 = user_options s" "child_profile s1 = ?k"
    by (subst s1, simp add: select_profile_frame)+
  have "select_profile ?k s1 = s1"
    by (subst (1 2) s1)
      (simp add: select_profile_def select_profile_loop_find split: option.splits)
  moreover have "s1\<lparr>child_profile := ?k\<rparr> = s1"
    by (simp add: fr(2) [symmetric])
  ultimately show ?thesis
    using idem fr(1) r \<open>r' \<noteq> None\<close> \<open>r' = child_spawner s1\<close>
    by (simp add: P_construct_child_def Let_def)
qed

lemma sample_backend_constructed:
  "W_construct_child (default_spawner, default_heap) =
     (Inr (Some sample_backend), default_spawner\<lparr>child_spawner := Some sample_backend\<rparr>,
      default_heap\<lparr>instances := 1\<rparr>)"
  by (simp add: W_construct_child_def default_spawner_def default_heap_def sample_backend_def
      new_backend_def backend_clear_state_def common_traits_def LocalProcessSpawner_def
      local_process_init_def int_or_absent_def Let_def)



text \<open>
  Claim C2. \<open>WrapSpawner.construct_child\<close> returns the instance it holds, and a second
  call returns the same instance without touching it (\<open>W_construct_child_idem\<close>). The
  override \<open>ProfilesSpawner.construct_child\<close> calls \<open>super().construct_child()\<close> and drops
  its result: on the supervisor whose user picked \<open>local\<close>, the first and the second call
  both evaluate to \<open>None\<close>, although an instance has been built and is held, and although
  the inherited method on the same input returns that instance. The second call leaves
  the instance and its call trace as they are (\<open>P_construct_child_again\<close>).
\<close>

theorem profiles_construct_child_returns_none:
  "fst (P_construct_child (local_spawner, default_heap)) = Inr None \<and>
   child_spawner (fst (snd (P_construct_child (local_spawner, default_heap)))) \<noteq> None \<and>
   fst (P_construct_child (snd (P_construct_child (local_spawner, default_heap)))) = Inr None \<and>
   fst (W_construct_child (local_spawner, default_heap)) = Inr (Some sample_backend)"
  by (simp add: P_construct_child_def W_construct_child_def local_spawner_def default_spawner_def
      default_heap_def default_profile_def select_profile_def dict_get_def Let_def
      new_backend_def backend_clear_state_def common_traits_def sample_backend_def
      LocalProcessSpawner_def local_process_init_def int_or_absent_def)

section \<open>Forwarding to the Backend\<close>

text \<open>
  Claim C7. On a supervisor with no Backend instance, \<open>poll\<close> raises nothing and returns
  \<open>_yield_val(1)\<close>: a Future that is already completed, with the result 1, which is not
  \<open>None\<close> and so reads as "not running". The supervisor is unchanged.
\<close>

theorem poll_without_backend:
  "child_spawner s = None \<Longrightarrow>
     poll s = (yield_val (PyInt 1), s) \<and> yield_val (PyInt 1) = Completed (PyInt 1) \<and>
     PyInt 1 \<noteq> PyNone"
  by (simp add: poll_def yield_val_def)

theorem poll_without_backend_witness:
  "child_spawner default_spawner = None \<and>
   poll default_spawner = (Completed (PyInt 1), default_spawner)"
  using poll_without_backend [of default_spawner]
  by (simp add: default_spawner_def)

text \<open>
  Claim C8. Reading \<open>progress\<close> on a supervisor with no Backend instance raises
  \<open>RuntimeError\<close>; when a Backend instance exists, its own progress stream is returned.
\<close>

theorem progress_requires_backend:
  "(child_spawner s = None \<longrightarrow>
      progress s = Inl (RuntimeError ''No child spawner yet exists - can not get progress yet'')) \<and>
   (child_spawner s = Some b \<longrightarrow> progress s = Inr (backend_progress b))"
  by (simp add: progress_def)

theorem progress_requires_backend_witness:
  "child_spawner default_spawner = None \<and>
   progress default_spawner =
     Inl (RuntimeError ''No child spawner yet exists - can not get progress yet'') \<and>
   child_spawner (default_spawner\<lparr>child_spawner := Some sample_backend\<rparr>) = Some sample_backend \<and>
   progress (default_spawner\<lparr>child_spawner := Some sample_backend\<rparr>) = Inr (BackendProgress 0)"
  using progress_requires_backend [of default_spawner sample_backend]
    progress_requires_backend
      [of "default_spawner\<lparr>child_spawner := Some sample_backend\<rparr>" sample_backend]
  by (simp add: default_spawner_def backend_progress_def sample_backend_def)

section \<open>The options form\<close>

text \<open>
  Claim C9. On a non-empty catalog, \<open>options_from_form\<close> returns the first catalog
  entry's key under \<open>profile\<close> when the form data has no \<open>profile\<close> key, and the submitted
  value (the first of the list of values) when a choice was submitted.
\<close>

theorem options_from_form_choice:
  assumes "profiles s = p # ps"
  shows "(map_of formdata ''profile'' = None \<longrightarrow>
            options_from_form s formdata = Inr [(''profile'', p_key p)]) \<and>
         (map_of formdata ''profile'' = Some (v # vs) \<longrightarrow>
            options_from_form s formdata = Inr [(''profile'', v)])"
  using assms by (simp add: options_from_form_def dict_get_def)

theorem options_from_form_choice_witness:
  "profiles default_spawner = default_profile # [] \<and>
   map_of ([] :: (string \<times> string list) list) ''profile'' = None \<and>
   options_from_form default_spawner [] = Inr [(''profile'', ''local'')] \<and>
   map_of [(''profile'', [''docker'', ''x''])] ''profile'' = Some (''docker'' # [''x'']) \<and>
   options_from_form default_spawner [(''profile'', [''docker'', ''x''])] =
     Inr [(''profile'', ''docker'')]"
  using options_from_form_choice [of default_spawner default_profile "[]" "[]" "''docker''" "[''x'']"]
    options_from_form_choice [of default_spawner default_profile "[]"
      "[(''profile'', [''docker'', ''x''])]" "''docker''" "[''x'']"]
  by (simp add: default_spawner_def default_profile_def)

text \<open>
  Claim C10. The default applies only when the \<open>profile\<close> key is absent: form data that
  maps \<open>profile\<close> to an empty list of values makes \<open>options_from_form\<close> fail with
  \<open>IndexError\<close> instead of falling back to the first catalog entry.
\<close>

theorem options_from_form_empty_choice:
  "map_of formdata ''profile'' = Some [] \<Longrightarrow> options_from_form s formdata = Inl IndexError"
  by (simp add: options_from_form_def dict_get_def split: list.splits)

theorem options_from_form_empty_choice_witness:
  "map_of [(''profile'', [] :: string list)] ''profile'' = Some [] \<and>
   options_from_form default_spawner [(''profile'', [])] = Inl IndexError"
  using options_from_form_empty_choice [of "[(''profile'', [])]" default_spawner]
  by simp

section \<open>The catalog and its config dicts\<close>

lemma P_construct_child_keeps_catalog:
  assumes "P_construct_child (s, h) = (r, s1, h1)"
  shows "profiles s1 = profiles s \<and> dicts h1 = dicts h"
proof -
  let ?k = "dict_get (user_options s) ''profile'' ''''"
  let ?s2 = "select_profile ?k (s\<lparr>child_profile := ?k\<rparr>)"
  obtain r' where w: "W_construct_child (?s2, h) = (r', s1, h1)"
    using assms by (auto simp: P_construct_child_def Let_def split: prod.splits sum.splits)
  have s1: "s1 = ?s2\<lparr>child_spawner := child_spawner s1\<rparr>" and d: "dicts h1 = dicts h"
    using W_construct_child_frame [OF w] by simp_all
  have "profiles s1 = profiles s"
    by (subst s1) (simp add: select_profile_frame)
  with d show ?thesis
    by simp
qed

lemma P_get_state_keeps_catalog:
  "profiles (snd (P_get_state s)) = profiles s"
  by (simp add: P_get_state_def W_get_state_def backend_get_state_def Let_def
      split: option.splits)

lemma P_clear_state_keeps_catalog:
  assumes "P_clear_state (s, h) = (s1, h1)"
  shows "profiles s1 = profiles s \<and> (\<forall>a < length (dicts h). dicts h1 ! a = dicts h ! a)"
  using assms by (auto simp: P_clear_state_def W_clear_state_def nth_append)

text \<open>
  Claim C6. The catalog's config dicts are not left alone by \<open>load_state\<close>:
  \<open>load_child_class\<close> makes \<open>child_config\<close> the very dict object of the selected catalog
  entry, and the next statement updates that object in place. Loading the restored state
  on the default configuration leaves the catalog list as it was, but the default
  profile's config dict, which held \<open>start_timeout = 15\<close>, now holds \<open>start_timeout = 60\<close>.
  The other operations keep the catalog and its dicts (\<open>P_construct_child_keeps_catalog\<close>,
  \<open>P_get_state_keeps_catalog\<close>, \<open>P_clear_state_keeps_catalog\<close>).
\<close>

theorem load_state_mutates_catalog_config:
  "p_config default_profile = 1 \<and>
   dicts restored_heap ! 1 = [(''start_timeout'', PyInt 15), (''http_timeout'', PyInt 10)] \<and>
   fst (P_load_state restored_state (default_spawner, restored_heap)) = None \<and>
   profiles (fst (snd (P_load_state restored_state (default_spawner, restored_heap)))) =
     [default_profile] \<and>
   dicts (snd (snd (P_load_state restored_state (default_spawner, restored_heap)))) ! 1 =
     [(''start_timeout'', PyInt 60), (''http_timeout'', PyInt 10)]"
  by (simp add: P_load_state_def load_state_body_def P_load_child_class_def
      P_construct_child_def W_construct_child_def restored_state_def restored_heap_def
      default_spawner_def default_heap_def default_profile_def select_profile_def dict_get_def
      dict_update_def Let_def new_backend_def LocalProcessSpawner_def local_process_init_def
      int_or_absent_def)

section \<open>Saving and restoring\<close>

lemma round_trip_same_choice:
  assumes c: "P_construct_child (s0, h0) = (r, s, h)"
    and g: "P_get_state s = (state, s1)"
    and l: "P_load_state state (t, h) = (e, s2, h2)"
    and t: "profiles t = profiles s0" "user_options t = user_options s0"
      "child_class t = child_class s0" "child_config t = child_config s0"
    and d: "distinct (map fst (dicts h ! child_config s))"
  shows "child_profile s2 = child_profile s \<and> child_class s2 = child_class s \<and>
         child_config s2 = child_config s \<and> dicts h2 = dicts h"
proof -
  let ?k = "dict_get (user_options s0) ''profile'' ''''"
  let ?f = "find (\<lambda>p. p_key p = ?k) (profiles s0)"
  let ?s0 = "select_profile ?k (s0\<lparr>child_profile := ?k\<rparr>)"
  obtain r' where w: "W_construct_child (?s0, h0) = (r', s, h)"
    using c by (auto simp: P_construct_child_def Let_def split: prod.splits sum.splits)
  have s_eq: "s = ?s0\<lparr>child_spawner := child_spawner s\<rparr>"
    using W_construct_child_frame [OF w] by simp
  have s: "child_profile s = ?k"
    "child_class s = (case ?f of None \<Rightarrow> child_class s0 | Some p \<Rightarrow> p_type p)"
    "child_config s = (case ?f of None \<Rightarrow> child_config s0 | Some p \<Rightarrow> p_config p)"
    by (subst s_eq, simp add: select_profile_def select_profile_loop_find split: option.splits)+
  have st: "st_profile state = Some ?k" "st_child_conf state = Some (child_config s)"
    using g s(1)
    by (auto simp: P_get_state_def W_get_state_def backend_get_state_def Let_def
        split: option.splits prod.splits)
  let ?t1 = "P_load_child_class state t"
  have t1: "child_config ?t1 = child_config s" "child_class ?t1 = child_class s"
    "profiles ?t1 = profiles s0" "user_options ?t1 = user_options s0"
    using t st s
    by (auto simp: P_load_child_class_def Let_def select_profile_def select_profile_loop_find
        split: option.splits)
  have upd: "(dicts h)[child_config ?t1 := dict_update (dicts h ! child_config ?t1)
               (dicts h ! child_config s)] = dicts h"
    using d by (simp add: t1(1) dict_update_self)
  let ?t2 = "?t1\<lparr>child_state := (case st_child_state state of None \<Rightarrow> [] | Some d \<Rightarrow> d)\<rparr>"
  obtain r'' where p: "P_construct_child (?t2, h\<lparr>dicts := dicts h\<rparr>) = (r'', s2, h2)"
    using l upd
    by (auto simp: P_load_state_def load_state_body_def Let_def st split: prod.splits sum.splits)
  let ?t3 = "select_profile ?k (?t2\<lparr>child_profile := ?k\<rparr>)"
  obtain r3 where w2: "W_construct_child (?t3, h\<lparr>dicts := dicts h\<rparr>) = (r3, s2, h2)"
    using p t1 by (auto simp: P_construct_child_def Let_def split: prod.splits sum.splits)
  have t3: "child_profile ?t3 = ?k" "child_class ?t3 = child_class s"
    "child_config ?t3 = child_config s"
    using t1 s
    by (auto simp: select_profile_def select_profile_loop_find split: option.splits)
  have s2_eq: "s2 = ?t3\<lparr>child_spawner := child_spawner s2\<rparr>" and h2: "dicts h2 = dicts h"
    using W_construct_child_frame [OF w2] by simp_all
  have "child_profile s2 = child_profile ?t3" "child_class s2 = child_class ?t3"
    "child_config s2 = child_config ?t3"
    by (subst s2_eq, simp)+
  with t3 s(1) h2 show ?thesis
    by simp
qed

text \<open>
  Claim C1. A supervisor whose user picked \<open>local\<close> constructs its Backend and saves its
  state, which records the profile \<open>local\<close>. A new supervisor with the same configuration
  and the default (empty) \<open>user_options\<close> loads that state: \<open>load_child_class\<close> restores
  \<open>child_profile\<close> from the state, and the \<open>construct_child\<close> that \<open>load_state\<close> calls
  next overwrites it with \<open>user_options.get('profile', "")\<close>. The class and the config
  dict are those of the original, \<open>child_profile\<close> is the empty string and not \<open>local\<close>.
  When the loading supervisor carries the same \<open>user_options\<close> as the original, all three
  are restored (\<open>round_trip_same_choice\<close>).
\<close>

theorem load_state_resets_child_profile:
  "(case P_construct_child (local_spawner, default_heap) of (r, s, h) \<Rightarrow>
     (case P_get_state s of (state, s1) \<Rightarrow>
       (case P_load_state state (default_spawner, h) of (e, s2, h2) \<Rightarrow>
          r = Inr None \<and> e = None \<and>
          child_spawner s \<noteq> None \<and> child_profile s = ''local'' \<and>
          st_profile state = Some ''local'' \<and> child_profile s2 = '''' \<and>
          child_class s2 = child_class s \<and> child_config s2 = child_config s)))"
  by (simp add: P_load_state_def load_state_body_def P_load_child_class_def P_get_state_def
      W_get_state_def backend_get_state_def
      P_construct_child_def W_construct_child_def local_spawner_def
      default_spawner_def default_heap_def default_profile_def select_profile_def dict_get_def
      dict_update_def Let_def new_backend_def LocalProcessSpawner_def local_process_init_def
      int_or_absent_def)

end
